theory Spec2Isabelle
  imports Main "HOL-Library.Word"
begin

unbundle bit_operations_syntax

section \<open>Python values used by the driver\<close>

text \<open>
  The driver is Python 2 code: a \<open>str\<close> is a sequence of 8-bit characters, \<open>ord\<close> reads a
  character as an integer in 0..255 and \<open>chr\<close> builds one from such an integer. Integers are
  unbounded. Exceptions are values of the type \<open>error\<close>; a \<open>ValueError\<close>, a
  \<open>RuntimeError\<close> and an \<open>AttributeError\<close> carry their message (for the last one, the name
  of the missing attribute).
\<close>

type_synonym byte = "8 word"
type_synonym pystr = "byte list"

datatype pyval = PyNone | PyInt int

datatype error =
    IndexError
  | ValueError string
  | RuntimeError string "pyval list"
  | AttributeError string
  | IOError int
  | StopIteration

definition ord_py :: "byte \<Rightarrow> int" where
  "ord_py c = uint c"

definition chr_py :: "int \<Rightarrow> error + byte" where
  "chr_py i = (if 0 \<le> i \<and> i < 256 then Inr (word_of_int i)
               else Inl (ValueError ''chr() arg not in range(256)''))"

text \<open>\<open>map(chr, xs)\<close>: the first argument out of range raises.\<close>

fun map_chr :: "int list \<Rightarrow> error + pystr" where
  "map_chr [] = Inr []"
| "map_chr (i # is) =
     (case chr_py i of
        Inl e \<Rightarrow> Inl e
      | Inr c \<Rightarrow> (case map_chr is of Inl e \<Rightarrow> Inl e | Inr cs \<Rightarrow> Inr (c # cs)))"

text \<open>\<open>xs[i]\<close>: a negative index counts from the end, an index out of range raises.\<close>

definition index_py :: "'a list \<Rightarrow> int \<Rightarrow> error + 'a" where
  "index_py xs i =
     (let n = int (length xs); j = (if i < 0 then i + n else i)
      in if 0 \<le> j \<and> j < n then Inr (xs ! nat j) else Inl IndexError)"

text \<open>\<open>xs[lo:hi]\<close>: negative bounds count from the end, both bounds are clamped to the
  sequence, and an empty range gives the empty sequence. A slice never raises.\<close>

definition slice_bound :: "int \<Rightarrow> int \<Rightarrow> int" where
  "slice_bound n i = (if i < 0 then max (i + n) 0 else min i n)"

definition slice_py :: "'a list \<Rightarrow> int \<Rightarrow> int \<Rightarrow> 'a list" where
  "slice_py xs lo hi =
     (let n = int (length xs); l = slice_bound n lo; h = slice_bound n hi
      in take (nat (h - l)) (drop (nat l) xs))"

section \<open>The bus device and the reader object\<close>

text \<open>
  The I2C device file behind \<open>self.bus\<close> is modelled by what has been written to it and by
  the responses it will return, one per \<open>read\<close> call. \<open>read(n)\<close> returns at most \<open>n\<close> bytes of
  the next response and the empty string when nothing is left. Delays (\<open>time.sleep\<close>) do not
  change the state.
\<close>

record i2c_dev =
  written :: "pystr list"
  incoming :: "pystr list"

definition bus_write :: "i2c_dev \<Rightarrow> pystr \<Rightarrow> i2c_dev" where
  "bus_write d s = d\<lparr>written := written d @ [s]\<rparr>"

definition bus_read :: "i2c_dev \<Rightarrow> nat \<Rightarrow> pystr \<times> i2c_dev" where
  "bus_read d n =
     (case incoming d of
        [] \<Rightarrow> ([], d)
      | r # rs \<Rightarrow> (take n r, d\<lparr>incoming := rs\<rparr>))"

text \<open>
  A write to a GPIO pseudo-file of a pin: the pin number to \<open>export\<close>, or a text to the pin's
  \<open>direction\<close>, \<open>edge\<close> or \<open>value\<close> file. The reader object holds the bus, the pins whose
  value files it has opened, and what construction wrote to the GPIO files and printed.
\<close>

datatype gpio_write =
    WriteExport int
  | WriteDirection int string
  | WriteEdge int string
  | WriteValue int string

record reader =
  bus :: i2c_dev
  pin_detect :: "int option"
  pin_wake :: "int option"
  gpio :: "gpio_write list"
  stdout :: "string list"

section \<open>RFIDReader.read and RFIDReader.write\<close>

text \<open>
  The body of \<open>read\<close> after the bus access. The length is \<open>ord(response[0])\<close>, taken from the
  response as received; \<open>clean\<close> is the response with bit 7 of every byte cleared; command,
  status and data are taken from \<open>clean\<close>.
\<close>

definition decode :: "pystr \<Rightarrow> error + (int \<times> int \<times> pystr)" where
  "decode response =
     (case index_py response 0 of
        Inl e \<Rightarrow> Inl e
      | Inr c0 \<Rightarrow>
          (let len = ord_py c0 in
           case map_chr (map (\<lambda>c. c AND 127) (map ord_py response)) of
             Inl e \<Rightarrow> Inl e
           | Inr clean \<Rightarrow>
               (case index_py clean 1 of
                  Inl e \<Rightarrow> Inl e
                | Inr c1 \<Rightarrow>
                    (case index_py clean 2 of
                       Inl e \<Rightarrow> Inl e
                     | Inr c2 \<Rightarrow>
                         Inr (ord_py c1, ord_py c2, slice_py clean 3 (len + 1))))))"

definition read :: "reader \<Rightarrow> (error + (int \<times> int \<times> pystr)) \<times> reader" where
  "read s =
     (case bus_read (bus s) 256 of
        (response, d) \<Rightarrow> (decode response, s\<lparr>bus := d\<rparr>))"

text \<open>
  \<open>encode\<close> is the frame that \<open>write\<close> builds, or the exception it raises before touching
  the bus; \<open>write_py\<close> is the method itself (\<open>write\<close> is a keyword of the proof language).
\<close>

definition PayloadTooLarge :: error where
  "PayloadTooLarge = ValueError ''Data must be shorter than 254 bytes''"

definition InvalidCommand :: error where
  "InvalidCommand = ValueError ''Invalid command''"

definition encode :: "int \<Rightarrow> pystr \<Rightarrow> error + pystr" where
  "encode command data =
     (let len = 1 + int (length data) in
      if len > 255 then Inl PayloadTooLarge
      else if \<not> (0 \<le> command \<and> command \<le> 255) then Inl InvalidCommand
      else (case chr_py len of
              Inl e \<Rightarrow> Inl e
            | Inr l \<Rightarrow>
                (case chr_py command of
                   Inl e \<Rightarrow> Inl e
                 | Inr c \<Rightarrow> Inr (l # c # data))))"

definition write_py :: "reader \<Rightarrow> int \<Rightarrow> pystr \<Rightarrow> (error + unit) \<times> reader" where
  "write_py s command data =
     (case encode command data of
        Inl e \<Rightarrow> (Inl e, s)
      | Inr frame \<Rightarrow> (Inr (), s\<lparr>bus := bus_write (bus s) frame\<rparr>))"

section \<open>RFIDReader.transaction, select and poll\<close>

definition CommandMismatch :: error where
  "CommandMismatch = RuntimeError ''Response to invalid command in transaction'' []"

definition transaction :: "reader \<Rightarrow> int \<Rightarrow> pystr \<Rightarrow> (error + (int \<times> pystr)) \<times> reader" where
  "transaction s command data =
     (case write_py s command data of
        (Inl e, s1) \<Rightarrow> (Inl e, s1)
      | (Inr u, s1) \<Rightarrow>
          (case read s1 of
             (Inl e, s2) \<Rightarrow> (Inl e, s2)
           | (Inr (response_command, status, data2), s2) \<Rightarrow>
               if response_command \<noteq> command then (Inl CommandMismatch, s2)
               else (Inr (status, data2), s2)))"

text \<open>
  The integer constants of the class body of \<open>RFIDReader\<close>, and the lookup
  \<open>RFIDReader.NAME\<close>, which raises \<open>AttributeError\<close> for a name the class does not define.
\<close>

definition RFIDReader_attrs :: "(string \<times> int) list" where
  "RFIDReader_attrs = [(''COMMAND_SLEEP'', 0x01), (''STATUS_SUCCESS'', 0x00)]"

definition class_attr :: "(string \<times> int) list \<Rightarrow> string \<Rightarrow> error + int" where
  "class_attr attrs name =
     (case map_of attrs name of
        None \<Rightarrow> Inl (AttributeError name)
      | Some v \<Rightarrow> Inr v)"

text \<open>
  The body of \<open>select\<close>, over the class namespace it is evaluated in. The argument
  \<open>RFIDReader.COMMAND_SELECT\<close> is evaluated before \<open>transaction\<close> is called. The result is
  the pair \<open>(ord(data[length-1]), data[:length-1])\<close>: the card type, then the UID.
\<close>

type_synonym card = "int \<times> pystr"

definition select_with :: "(string \<times> int) list \<Rightarrow> reader \<Rightarrow> (error + card option) \<times> reader" where
  "select_with attrs s =
     (case class_attr attrs ''COMMAND_SELECT'' of
        Inl e \<Rightarrow> (Inl e, s)
      | Inr command \<Rightarrow>
          (case transaction s command [] of
             (Inl e, s1) \<Rightarrow> (Inl e, s1)
           | (Inr (status, data), s1) \<Rightarrow>
               (case class_attr attrs ''STATUS_SUCCESS'' of
                  Inl e \<Rightarrow> (Inl e, s1)
                | Inr success \<Rightarrow>
                    if status \<noteq> success then (Inr None, s1)
                    else (let len = int (length data) in
                          case index_py data (len - 1) of
                            Inl e \<Rightarrow> (Inl e, s1)
                          | Inr c \<Rightarrow> (Inr (Some (ord_py c, slice_py data 0 (len - 1))), s1)))))"

definition select :: "reader \<Rightarrow> (error + card option) \<times> reader" where
  "select s = select_with RFIDReader_attrs s"

text \<open>
  \<open>poll\<close> reads the detect pin's value file (an attribute lookup on \<open>None\<close> when the reader
  has no detect pin), then blocks in \<open>epoll.poll()\<close>, which has no timeout, until the pin
  signals an edge, and then calls \<open>select\<close>. \<open>edge\<close> says whether an edge ever arrives; the
  value \<open>None\<close> stands for a call that blocks forever.
\<close>

definition poll :: "bool \<Rightarrow> reader \<Rightarrow> ((error + card option) \<times> reader) option" where
  "poll edge s =
     (case pin_detect s of
        None \<Rightarrow> Some (Inl (AttributeError ''read''), s)
      | Some pin \<Rightarrow> if edge then Some (select s) else None)"

section \<open>The bridge loop\<close>

text \<open>
  The message broker client is modelled by the list of its \<open>publish\<close> calls: the topic and the
  payload (\<open>None\<close> when \<open>publish\<close> is called with the topic only).
\<close>

type_synonym client = "(string \<times> pystr option) list"

definition PRESENTED_TOPIC :: string where
  "PRESENTED_TOPIC = ''rfid/presented''"

definition REMOVED_TOPIC :: string where
  "REMOVED_TOPIC = ''rfid/removed''"

definition publish :: "client \<Rightarrow> string \<Rightarrow> pystr option \<Rightarrow> client" where
  "publish c topic payload = c @ [(topic, payload)]"

text \<open>One iteration of the \<open>while\<close> loop after \<open>rfid.select()\<close> has returned \<open>response\<close>.\<close>

definition loop_body :: "card option \<Rightarrow> card option \<Rightarrow> client \<Rightarrow> card option \<times> client" where
  "loop_body present response c =
     (case response of
        Some r \<Rightarrow>
          if present \<noteq> Some r then (Some r, publish c PRESENTED_TOPIC (Some (snd r)))
          else (present, c)
      | None \<Rightarrow>
          if present \<noteq> None then (None, publish c REMOVED_TOPIC None)
          else (present, c))"

text \<open>
  \<open>loop\<close> takes any object with a \<open>select\<close> method: \<open>sel\<close> is that method, on the object's
  state \<open>'r\<close>. The loop is \<open>while True\<close>: it ends only when \<open>select\<close> raises, and the value of
  the model is then the exception with the final states; \<open>None\<close> stands for a loop that runs
  forever.
\<close>

partial_function (option) loop_while ::
  "('r \<Rightarrow> (error + card option) \<times> 'r) \<Rightarrow> 'r \<Rightarrow> client \<Rightarrow> card option \<Rightarrow> (error \<times> 'r \<times> client) option"
where
  "loop_while sel rfid c present =
     (case sel rfid of
        (Inl e, rfid1) \<Rightarrow> Some (e, rfid1, c)
      | (Inr response, rfid1) \<Rightarrow>
          (case loop_body present response c of
             (present1, c1) \<Rightarrow> loop_while sel rfid1 c1 present1))"

declare loop_while.simps [code]

definition loop :: "('r \<Rightarrow> (error + card option) \<times> 'r) \<Rightarrow> 'r \<Rightarrow> client \<Rightarrow> (error \<times> 'r \<times> client) option" where
  "loop sel rfid c = loop_while sel rfid c None"

text \<open>
  A reader double for the loop: \<open>select\<close> returns the scripted results in turn and raises
  \<open>StopIteration\<close> when the script is used up.
\<close>

fun scripted_select :: "card option list \<Rightarrow> (error + card option) \<times> card option list" where
  "scripted_select [] = (Inl StopIteration, [])"
| "scripted_select (r # rs) = (Inr r, rs)"

section \<open>RFIDReader.__init__\<close>

text \<open>
  The operating system as construction sees it: what opening \<open>/dev/i2c-N\<close> gives, what the C
  \<open>ioctl\<close> call returns for a request and its argument (negative when it fails, with the error
  number in \<open>c_errno\<close>), and for which pins the write to the GPIO \<open>export\<close> file fails.
\<close>

record os_env =
  dev_file :: "int \<Rightarrow> error + i2c_dev"
  c_ioctl :: "int \<Rightarrow> int \<Rightarrow> int"
  c_errno :: int
  export_fails :: "int \<Rightarrow> bool"

definition I2C_SLAVE :: int where
  "I2C_SLAVE = 0x0703"

text \<open>
  \<open>fcntl.ioctl(fd, request, arg)\<close> with an integer argument raises \<open>IOError\<close> when the C call
  fails and otherwise returns the C call's return value, an integer. It never returns \<open>None\<close>.
\<close>

definition fcntl_ioctl :: "os_env \<Rightarrow> int \<Rightarrow> int \<Rightarrow> error + pyval" where
  "fcntl_ioctl env request arg =
     (let ret = c_ioctl env request arg
      in if ret < 0 then Inl (IOError (c_errno env)) else Inr (PyInt ret))"

definition SlaveAddressError :: "pyval \<Rightarrow> error" where
  "SlaveAddressError err = RuntimeError ''Couldn't set the slave address:'' [err]"

text \<open>The export of a pin inside \<open>try\<close>/\<open>except\<close>: a failure is printed and swallowed.\<close>

definition export_pin :: "os_env \<Rightarrow> int \<Rightarrow> string \<Rightarrow> reader \<Rightarrow> reader" where
  "export_pin env pin msg s =
     (if export_fails env pin then s\<lparr>stdout := stdout s @ [msg]\<rparr>
      else s\<lparr>gpio := gpio s @ [WriteExport pin]\<rparr>)"

definition enable_detect :: "os_env \<Rightarrow> int \<Rightarrow> reader \<Rightarrow> reader" where
  "enable_detect env pin s =
     (let s1 = export_pin env pin ''Couldn't export detection pin'' s
      in s1\<lparr>gpio := gpio s1 @ [WriteDirection pin ''in'', WriteEdge pin ''falling''],
             pin_detect := Some pin\<rparr>)"

definition enable_wake :: "os_env \<Rightarrow> int \<Rightarrow> reader \<Rightarrow> reader" where
  "enable_wake env pin s =
     (let s1 = export_pin env pin ''Couldn't export wake pin'' s
      in s1\<lparr>gpio := gpio s1 @ [WriteDirection pin ''out'', WriteValue pin ''1''],
             pin_wake := Some pin\<rparr>)"

definition RFIDReader_init :: "os_env \<Rightarrow> int \<Rightarrow> int \<Rightarrow> int option \<Rightarrow> int option \<Rightarrow> error + reader" where
  "RFIDReader_init env bus_no address detect wake =
     (case dev_file env bus_no of
        Inl e \<Rightarrow> Inl e
      | Inr d \<Rightarrow>
          (case fcntl_ioctl env I2C_SLAVE address of
             Inl e \<Rightarrow> Inl e
           | Inr err \<Rightarrow>
               if err \<noteq> PyNone then Inl (SlaveAddressError err)
               else
                 (let s0 = \<lparr>bus = d, pin_detect = None, pin_wake = None, gpio = [], stdout = []\<rparr>;
                      s1 = (case detect of None \<Rightarrow> s0 | Some pin \<Rightarrow> enable_detect env pin s0);
                      s2 = (case wake of None \<Rightarrow> s1 | Some pin \<Rightarrow> enable_wake env pin s1)
                  in Inr s2)))"

section \<open>Test doubles\<close>

text \<open>A reader without GPIO pins whose bus will return the given responses.\<close>

definition reader_on :: "pystr list \<Rightarrow> reader" where
  "reader_on responses =
     \<lparr>bus = \<lparr>written = [], incoming = responses\<rparr>,
      pin_detect = None, pin_wake = None, gpio = [], stdout = []\<rparr>"

text \<open>The same reader with the detect pin 4 of the bridge configured.\<close>

definition reader_with_detect :: "pystr list \<Rightarrow> reader" where
  "reader_with_detect responses = (reader_on responses)\<lparr>pin_detect := Some 4\<rparr>"

text \<open>Bit 7 of every byte cleared, and bit 7 of every byte set.\<close>

definition clear_msb :: "pystr \<Rightarrow> pystr" where
  "clear_msb s = map (\<lambda>b. b AND 0x7F) s"

definition set_msb :: "pystr \<Rightarrow> pystr" where
  "set_msb s = map (\<lambda>b. b OR 0x80) s"

section \<open>Events, as the claims name them\<close>

text \<open>
  The two \<open>publish\<close> calls of the loop: a presented card is published with its UID
  (\<open>response[1]\<close>) as payload, a removal without payload. \<open>event_of\<close> is the call that a
  \<open>select\<close> result gives rise to when it is published.
\<close>

definition card_presented :: "card \<Rightarrow> string \<times> pystr option" where
  "card_presented info = (PRESENTED_TOPIC, Some (snd info))"

definition card_removed :: "string \<times> pystr option" where
  "card_removed = (REMOVED_TOPIC, None)"

definition event_of :: "card option \<Rightarrow> string \<times> pystr option" where
  "event_of r = (case r of Some info \<Rightarrow> card_presented info | None \<Rightarrow> card_removed)"

text \<open>
  The \<open>select\<close> results, in order, in whose iteration the loop body published something,
  starting from the given value of \<open>present\<close>.
\<close>

fun triggers :: "card option \<Rightarrow> card option list \<Rightarrow> card option list" where
  "triggers present [] = []"
| "triggers present (r # rs) =
     (if snd (loop_body present r []) = [] then [] else [r])
       @ triggers (fst (loop_body present r [])) rs"

text \<open>
  The class namespace with the constant that \<open>select\<close> looks up, with the module's code for
  selecting a card.
\<close>

definition select_defined :: "(string \<times> int) list" where
  "select_defined = (''COMMAND_SELECT'', 0x01) # RFIDReader_attrs"

text \<open>
  An operating system where the device file opens, the C \<open>ioctl\<close> call returns \<open>ret\<close> (with
  error number 121 when it fails) and every pin can be exported.
\<close>

definition test_env :: "int \<Rightarrow> os_env" where
  "test_env ret =
     \<lparr>dev_file = (\<lambda>n. Inr \<lparr>written = [], incoming = []\<rparr>),
      c_ioctl = (\<lambda>request arg. ret), c_errno = 121, export_fails = (\<lambda>pin. False)\<rparr>"

section \<open>Properties of the codec\<close>

subsection \<open>Cleaning, indexing and slicing\<close>

lemma and127_range: "0 \<le> (uint (b::byte)) AND 127 \<and> (uint b) AND 127 < 256"
proof -
  have "uint b AND 127 \<le> 127" by (rule AND_upper2) simp
  moreover have "0 \<le> uint b AND 127" by simp
  ultimately show ?thesis by simp
qed

lemma chr_ord_and127: "chr_py (ord_py b AND 127) = Inr (b AND 127)"
proof -
  have "uint b AND 127 = uint (b AND 127)"
    by (simp add: uint_and)
  then have "word_of_int (uint b AND 127) = (b AND 127 :: byte)"
    by (simp only: word_of_int_uint)
  then show ?thesis using and127_range [of b] by (simp add: chr_py_def ord_py_def)
qed

lemma map_chr_clean:
  "map_chr (map (\<lambda>c. c AND 127) (map ord_py r)) = Inr (clear_msb r)"
  by (induction r) (simp_all add: chr_ord_and127 clear_msb_def)

lemma length_clear_msb: "length (clear_msb r) = length r"
  by (simp add: clear_msb_def)

lemma index_py_nonneg:
  "0 \<le> i \<Longrightarrow> index_py xs i = (if nat i < length xs then Inr (xs ! nat i) else Inl IndexError)"
  by (auto simp: index_py_def Let_def)

lemma slice_py_from3:
  "3 \<le> length xs \<Longrightarrow> 0 \<le> len \<Longrightarrow> slice_py xs 3 (len + 1) = take (nat (len - 2)) (drop 3 xs)"
  by (auto simp: slice_py_def slice_bound_def Let_def min_def)

lemma decode_short: "length r < 3 \<Longrightarrow> decode r = Inl IndexError"
  unfolding decode_def map_chr_clean
  by (auto simp: index_py_nonneg length_clear_msb Let_def)

lemma decode_long:
  "3 \<le> length r \<Longrightarrow>
   decode r = Inr (ord_py (clear_msb r ! 1), ord_py (clear_msb r ! 2),
                   slice_py (clear_msb r) 3 (ord_py (r ! 0) + 1))"
  unfolding decode_def map_chr_clean
  by (auto simp: index_py_nonneg length_clear_msb Let_def)

subsection \<open>What write accepts and sends\<close>

lemma encode_eq:
  "encode command data =
     (if 254 < length data then Inl PayloadTooLarge
      else if command < 0 \<or> 255 < command then Inl InvalidCommand
      else Inr (word_of_int (1 + int (length data)) # word_of_int command # data))"
  by (auto simp: encode_def chr_py_def Let_def)

lemma write_py_eq:
  "write_py s command data =
     (if 254 < length data then (Inl PayloadTooLarge, s)
      else if command < 0 \<or> 255 < command then (Inl InvalidCommand, s)
      else (Inr (), s\<lparr>bus := bus_write (bus s)
              (word_of_int (1 + int (length data)) # word_of_int command # data)\<rparr>))"
  by (simp add: write_py_def encode_eq)

lemma uint_byte_of_int: "0 \<le> i \<Longrightarrow> i \<le> 255 \<Longrightarrow> uint (word_of_int i :: byte) = i"
  by (simp add: uint_word_of_int)

lemma PayloadTooLarge_neq: "PayloadTooLarge \<noteq> InvalidCommand"
  by (simp add: PayloadTooLarge_def InvalidCommand_def)

lemma write_py_valid:
  assumes "length data \<le> 254" "0 \<le> command" "command \<le> 255"
  shows "\<exists>frame. write_py s command data =
                (Inr (), s\<lparr>bus := (bus s)\<lparr>written := written (bus s) @ [frame]\<rparr>\<rparr>) \<and>
             map ord_py frame = (1 + int (length data)) # command # map ord_py data"
proof -
  let ?frame = "(word_of_int (1 + int (length data)) :: byte) # word_of_int command # data"
  have w: "write_py s command data =
             (Inr (), s\<lparr>bus := (bus s)\<lparr>written := written (bus s) @ [?frame]\<rparr>\<rparr>)"
    using assms by (simp only: write_py_eq bus_write_def) simp
  have "uint (word_of_int (1 + int (length data)) :: byte) = 1 + int (length data)"
    using assms by (intro uint_byte_of_int) simp_all
  moreover have "uint (word_of_int command :: byte) = command"
    using assms by (intro uint_byte_of_int) simp_all
  ultimately have m: "map ord_py ?frame = (1 + int (length data)) # command # map ord_py data"
    by (simp only: list.map ord_py_def)
  show ?thesis by (rule exI [of _ ?frame]) (rule conjI [OF w m])
qed

text \<open>
  C9, as the code has it. \<open>write\<close> checks the length first: it raises the payload error
  exactly when the data has more than 254 bytes, and the command error exactly when the data
  has at most 254 bytes and the command is outside 0..255. For every other call it returns
  after one bus write of a frame whose bytes, read as integers, are \<open>1 + len(data)\<close>, the
  command, and the data unchanged. Nothing is written when it raises.
\<close>

theorem write_validation:
  "(fst (write_py s command data) = Inl PayloadTooLarge) = (254 < length data) \<and>
   (fst (write_py s command data) = Inl InvalidCommand) =
      (length data \<le> 254 \<and> (command < 0 \<or> 255 < command)) \<and>
   (length data \<le> 254 \<and> 0 \<le> command \<and> command \<le> 255 \<longrightarrow>
      (\<exists>frame. write_py s command data =
                (Inr (), s\<lparr>bus := (bus s)\<lparr>written := written (bus s) @ [frame]\<rparr>\<rparr>) \<and>
             map ord_py frame = (1 + int (length data)) # command # map ord_py data))"
proof (intro conjI impI)
  show "(fst (write_py s command data) = Inl PayloadTooLarge) = (254 < length data)"
    using PayloadTooLarge_neq by (simp add: write_py_eq)
  show "(fst (write_py s command data) = Inl InvalidCommand) =
      (length data \<le> 254 \<and> (command < 0 \<or> 255 < command))"
    using PayloadTooLarge_neq by (auto simp: write_py_eq)
next
  assume "length data \<le> 254 \<and> 0 \<le> command \<and> command \<le> 255"
  then show "\<exists>frame. write_py s command data =
                (Inr (), s\<lparr>bus := (bus s)\<lparr>written := written (bus s) @ [frame]\<rparr>\<rparr>) \<and>
             map ord_py frame = (1 + int (length data)) # command # map ord_py data"
    using write_py_valid by blast
qed

text \<open>
  Command 1 with the data \<open>07 08\<close> is written as \<open>03 01 07 08\<close>; 255 bytes of data raise the
  payload error; command 300 raises the command error.
\<close>

theorem write_validation_witness:
  "write_py (reader_on []) 1 [7, 8] =
     (Inr (), (reader_on [])\<lparr>bus := \<lparr>written = [[3, 1, 7, 8]], incoming = []\<rparr>\<rparr>) \<and>
   fst (write_py (reader_on []) 1 (replicate 255 0)) = Inl PayloadTooLarge \<and>
   fst (write_py (reader_on []) 300 [7, 8]) = Inl InvalidCommand"
  using write_validation [of "reader_on []" 1 "[7, 8]"]
    write_validation [of "reader_on []" 1 "replicate 255 0"]
    write_validation [of "reader_on []" 300 "[7, 8]"]
  by (simp add: write_py_eq reader_on_def bus_write_def)

text \<open>
  The claim as stated fails where both checks would fail: command 256 is outside 0..255, and
  with 255 bytes of data the exception is the payload error, not the command error.
\<close>

theorem write_validation_counterexample:
  "fst (write_py (reader_on []) 256 (replicate 255 0)) = Inl PayloadTooLarge \<and>
   fst (write_py (reader_on []) 256 (replicate 255 0)) \<noteq> Inl InvalidCommand \<and>
   (256::int) > 255"
  using PayloadTooLarge_neq by (simp add: write_py_eq)

subsection \<open>What read returns\<close>

lemma read_eq:
  "read s = (decode (fst (bus_read (bus s) 256)), s\<lparr>bus := snd (bus_read (bus s) 256)\<rparr>)"
  by (simp add: read_def split: prod.splits)

lemma ord_py_nonneg: "0 \<le> ord_py c"
  by (simp add: ord_py_def)

text \<open>
  C3, as the code has it. \<open>read\<close> takes the frame length from byte 0 of the response as it
  was received, before the cleaning. Every byte then has bit 7 cleared, and on a response of
  three bytes or more the command is the cleaned byte 1, the status the cleaned byte 2, and
  the data the cleaned bytes from index 3 up to, not including, index \<open>length + 1\<close>.
\<close>

theorem read_cleans_fields:
  assumes "bus_read (bus s) 256 = (response, d)" and "3 \<le> length response"
  shows "fst (read s) =
           Inr (ord_py (clear_msb response ! 1), ord_py (clear_msb response ! 2),
                slice_py (clear_msb response) 3 (ord_py (response ! 0) + 1))"
  using assms by (simp add: read_eq decode_long)

text \<open>
  The response \<open>83 81 80 85 86\<close>: command \<open>81\<close> and status \<open>80\<close> are read as 1 and 0, the
  data bytes \<open>85 86\<close> as \<open>05 06\<close>, and the length is \<open>0x83 = 131\<close>, so the data runs to the
  end of the response.
\<close>

theorem read_cleans_fields_witness:
  "fst (read (reader_on [[0x83, 0x81, 0x80, 0x85, 0x86]])) = Inr (1, 0, [5, 6])"
  using read_cleans_fields [of "reader_on [[0x83, 0x81, 0x80, 0x85, 0x86]]"
      "[0x83, 0x81, 0x80, 0x85, 0x86]" "\<lparr>written = [], incoming = []\<rparr>"]
  by (simp add: reader_on_def bus_read_def clear_msb_def slice_py_def slice_bound_def ord_py_def)

text \<open>
  The claim as stated fails on the response \<open>83 01 00 05 06 07 08 09\<close>: the length used is
  \<open>0x83 = 131\<close> and the data is \<open>05 06 07 08 09\<close>; with the cleaned byte 0, which is 3, the
  data would be \<open>cleaned[3:4] = 05\<close>.
\<close>

theorem read_length_from_raw_byte:
  "fst (read (reader_on [[0x83, 1, 0, 5, 6, 7, 8, 9]])) = Inr (1, 0, [5, 6, 7, 8, 9]) \<and>
   slice_py (clear_msb [0x83, 1, 0, 5, 6, 7, 8, 9]) 3
     (ord_py (clear_msb [0x83, 1, 0, 5, 6, 7, 8, 9] ! 0) + 1) = [5]"
  by (simp add: read_eq reader_on_def bus_read_def decode_long clear_msb_def
      slice_py_def slice_bound_def ord_py_def)

lemma nth_clear_msb: "i < length r \<Longrightarrow> clear_msb r ! i = r ! i AND 0x7F"
  by (simp add: clear_msb_def)

text \<open>
  C4, as the code has it. \<open>read\<close> has no check of the response against its length byte. It
  raises \<open>IndexError\<close> exactly when the response has fewer than three bytes, whatever byte 0
  says. On three bytes or more it returns: the command is byte 1 and the status byte 2, each
  with bit 7 cleared, and the data is the first \<open>length - 2\<close> of the cleaned bytes after the
  third, or all of them when the response is shorter than its length byte announces. In
  both cases the response has been taken from the bus.
\<close>

theorem read_fails_iff_short:
  assumes "bus_read (bus s) 256 = (response, d)"
  shows "(length response < 3 \<longrightarrow> read s = (Inl IndexError, s\<lparr>bus := d\<rparr>)) \<and>
         (3 \<le> length response \<longrightarrow>
            read s =
              (Inr (ord_py (response ! 1 AND 0x7F), ord_py (response ! 2 AND 0x7F),
                    take (nat (ord_py (response ! 0) - 2)) (drop 3 (clear_msb response))),
               s\<lparr>bus := d\<rparr>))"
proof (intro conjI impI)
  assume "length response < 3"
  then show "read s = (Inl IndexError, s\<lparr>bus := d\<rparr>)"
    using assms by (simp add: read_eq decode_short)
next
  assume len: "3 \<le> length response"
  then have "slice_py (clear_msb response) 3 (ord_py (response ! 0) + 1) =
               take (nat (ord_py (response ! 0) - 2)) (drop 3 (clear_msb response))"
    by (intro slice_py_from3) (simp_all add: length_clear_msb ord_py_nonneg)
  moreover have "clear_msb response ! 1 = response ! 1 AND 0x7F"
    using len by (intro nth_clear_msb) simp
  moreover have "clear_msb response ! 2 = response ! 2 AND 0x7F"
    using len by (intro nth_clear_msb) simp
  ultimately show "read s =
              (Inr (ord_py (response ! 1 AND 0x7F), ord_py (response ! 2 AND 0x7F),
                    take (nat (ord_py (response ! 0) - 2)) (drop 3 (clear_msb response))),
               s\<lparr>bus := d\<rparr>)"
    using assms len by (simp add: read_eq decode_long)
qed

text \<open>
  The two-byte response \<open>05 01\<close> raises; the response \<open>05 81 00 89\<close>, two bytes shorter
  than its length byte announces, is decoded to command 1, status 0 and the one data byte
  \<open>09\<close> that is there.
\<close>

theorem read_fails_iff_short_witness:
  "read (reader_on [[5, 1]]) = (Inl IndexError, reader_on []) \<and>
   read (reader_on [[5, 0x81, 0, 0x89]]) = (Inr (1, 0, [9]), reader_on [])"
  using read_fails_iff_short [of "reader_on [[5, 1]]" "[5, 1]" "\<lparr>written = [], incoming = []\<rparr>"]
    read_fails_iff_short [of "reader_on [[5, 0x81, 0, 0x89]]" "[5, 0x81, 0, 0x89]"
      "\<lparr>written = [], incoming = []\<rparr>"]
  by (simp add: reader_on_def bus_read_def ord_py_def clear_msb_def)

text \<open>
  The claim as stated fails on the response \<open>05 01 00\<close>: it has three bytes, fewer than
  the six its length byte asks for, and \<open>read\<close> returns command 1, status 0 and no data.
\<close>

theorem read_short_frame_counterexample:
  "fst (read (reader_on [[5, 1, 0]])) = Inr (1, 0, []) \<and>
   int (length [5, 1, 0 :: byte]) < ord_py ([5, 1, 0] ! 0) + 1"
  by (simp add: read_eq reader_on_def bus_read_def decode_long clear_msb_def
      slice_py_def slice_bound_def ord_py_def)

subsection \<open>Writing a frame and reading it back\<close>

lemma byte_7F: "(0x7F::byte) = mask 7"
  by (simp add: mask_eq_exp_minus_1)

lemma bit_byte_80: "bit (0x80::byte) n = (n = 7)"
proof -
  have "bit (2 ^ 7 :: byte) n = (n = 7)"
    by (simp only: bit_exp_iff possible_bit_word) auto
  then show ?thesis by simp
qed

lemma clear_set_byte: "((b::byte) OR 0x80) AND 0x7F = b AND 0x7F"
proof (rule bit_word_eqI)
  fix n assume "n < LENGTH(8)"
  have "bit ((b OR 0x80) AND 0x7F) n = ((bit b n \<or> bit (0x80::byte) n) \<and> bit (0x7F::byte) n)"
    by (simp only: bit_and_iff bit_or_iff)
  also have "\<dots> = ((bit b n \<or> n = 7) \<and> n < 7)"
    by (simp only: bit_byte_80 byte_7F bit_mask_iff possible_bit_word) auto
  also have "\<dots> = (bit b n \<and> n < 7)"
    by auto
  also have "\<dots> = (bit b n \<and> bit (0x7F::byte) n)"
    by (simp only: byte_7F bit_mask_iff possible_bit_word) auto
  also have "\<dots> = bit (b AND 0x7F) n"
    by (simp only: bit_and_iff)
  finally show "bit ((b OR 0x80) AND 0x7F) n = bit (b AND 0x7F) n" .
qed

lemma low_byte_clean: "ord_py b \<le> 127 \<Longrightarrow> b AND 0x7F = b"
proof -
  assume "ord_py b \<le> 127"
  then have "b < 2 ^ 7" by (simp add: word_less_alt ord_py_def)
  then show ?thesis unfolding byte_7F by (rule less_mask_eq)
qed

lemma ord_set_msb_ge: "ord_py b \<le> ord_py (b OR 0x80)"
  by (simp add: ord_py_def uint_or or_greater_eq)

lemma clear_set_msb: "clear_msb (set_msb xs) = clear_msb xs"
  by (simp add: clear_msb_def set_msb_def clear_set_byte)

lemma clear_msb_low: "\<forall>b \<in> set xs. ord_py b \<le> 127 \<Longrightarrow> clear_msb xs = xs"
  by (induction xs) (simp_all add: clear_msb_def low_byte_clean)

lemma length_set_msb: "length (set_msb xs) = length xs"
  by (simp add: set_msb_def)

lemma decode_set_msb:
  assumes "3 \<le> length frame" "int (length frame) \<le> ord_py (frame ! 0) + 1"
  shows "decode (set_msb frame) =
           Inr (ord_py (clear_msb frame ! 1), ord_py (clear_msb frame ! 2), drop 3 (clear_msb frame))"
proof -
  have "0 < length frame"
    using assms(1) by (cases frame) simp_all
  then have "ord_py (frame ! 0) \<le> ord_py (set_msb frame ! 0)"
    by (simp add: set_msb_def ord_set_msb_ge)
  then have "int (length frame) \<le> ord_py (set_msb frame ! 0) + 1"
    using assms(2) by simp
  then have "slice_py (clear_msb frame) 3 (ord_py (set_msb frame ! 0) + 1) = drop 3 (clear_msb frame)"
    using assms(1) by (simp add: slice_py_def slice_bound_def length_clear_msb min_def)
  then show ?thesis
    using assms(1) by (simp add: decode_long length_set_msb clear_set_msb)
qed

text \<open>
  C5, as the code has it. The frame that \<open>write\<close> builds has no status field: read back, its
  first payload byte is the status. For a command in 0..127 and a payload of at most 254
  bytes, all of them in 0..127, the frame with bit 7 of every byte set decodes to the
  command, the first payload byte as status, and the rest of the payload as data.
\<close>

theorem roundtrip_low_bytes:
  assumes "0 \<le> command" "command \<le> 127" "length (status # data) \<le> 254"
    and "\<forall>b \<in> set (status # data). ord_py b \<le> 127"
  shows "\<exists>frame. encode command (status # data) = Inr frame \<and>
           decode (set_msb frame) = Inr (command, ord_py status, data)"
proof -
  let ?l = "word_of_int (1 + int (length (status # data))) :: byte"
  let ?c = "word_of_int command :: byte"
  let ?frame = "?l # ?c # status # data"
  have enc: "encode command (status # data) = Inr ?frame"
    using assms by (simp add: encode_eq)
  have l: "ord_py ?l = 1 + int (length (status # data))"
    unfolding ord_py_def using assms(3) by (intro uint_byte_of_int) simp_all
  have c: "ord_py ?c = command"
    unfolding ord_py_def using assms by (intro uint_byte_of_int) simp_all
  have "\<forall>b \<in> set (?c # status # data). ord_py b \<le> 127"
    using assms c by simp
  then have clean: "clear_msb (?c # status # data) = ?c # status # data"
    by (rule clear_msb_low)
  have "decode (set_msb ?frame) =
          Inr (ord_py (clear_msb ?frame ! 1), ord_py (clear_msb ?frame ! 2), drop 3 (clear_msb ?frame))"
    using l by (intro decode_set_msb) simp_all
  also have "clear_msb ?frame = (?l AND 0x7F) # clear_msb (?c # status # data)"
    by (simp add: clear_msb_def)
  finally have "decode (set_msb ?frame) = Inr (command, ord_py status, data)"
    using c by (simp add: clean)
  with enc show ?thesis by blast
qed

text \<open>
  Command 1 with the payload \<open>00 01 02 03 04\<close> is the frame \<open>06 01 00 01 02 03 04\<close>, and
  with bit 7 of every byte set it decodes to command 1, status 0 and the data \<open>01 02 03 04\<close>.
\<close>

theorem roundtrip_low_bytes_witness:
  "encode 1 [0, 1, 2, 3, 4] = Inr [6, 1, 0, 1, 2, 3, 4] \<and>
   decode (set_msb [6, 1, 0, 1, 2, 3, 4]) = Inr (1, 0, [1, 2, 3, 4])"
  using roundtrip_low_bytes [of 1 0 "[1, 2, 3, 4]"]
  by (simp add: encode_eq ord_py_def)

text \<open>
  The claim as stated fails for command 128, a command that \<open>write\<close> accepts: the frame is
  \<open>03 80 00 05\<close>, and read back it gives command 0, not 128.
\<close>

theorem roundtrip_counterexample:
  "encode 128 [0, 5] = Inr [3, 128, 0, 5] \<and>
   decode (set_msb [3, 128, 0, 5]) = Inr (0, 0, [5]) \<and>
   decode (set_msb [3, 128, 0, 5]) \<noteq> Inr (128, 0, [5])"
  by (simp add: encode_eq decode_long set_msb_def clear_msb_def slice_py_def slice_bound_def
      ord_py_def)

section \<open>Properties of the reader session\<close>

subsection \<open>Transactions\<close>

lemma transaction_after_write:
  assumes "write_py s command data = (Inr (), s1)"
  shows "transaction s command data =
           (case read s1 of
              (Inl e, s2) \<Rightarrow> (Inl e, s2)
            | (Inr (response_command, status, data2), s2) \<Rightarrow>
                if response_command \<noteq> command then (Inl CommandMismatch, s2)
                else (Inr (status, data2), s2))"
  using assms by (simp add: transaction_def)

lemma decode_command_low:
  "decode r = Inr (c, st, d) \<Longrightarrow> 0 \<le> c \<and> c \<le> 127"
proof -
  assume a: "decode r = Inr (c, st, d)"
  have len: "3 \<le> length r"
  proof (rule ccontr)
    assume "\<not> 3 \<le> length r"
    then have "decode r = Inl IndexError" by (simp add: decode_short)
    with a show False by simp
  qed
  with a have "c = ord_py (clear_msb r ! 1)" by (simp add: decode_long)
  also have "\<dots> = ord_py (r ! 1 AND 0x7F)"
    using len by (simp add: clear_msb_def)
  also have "\<dots> = uint (r ! 1) AND 127" by (simp add: ord_py_def uint_and)
  finally show ?thesis using and127_range [of "r ! 1"] AND_upper2 [of 127 "uint (r ! 1)"] by simp
qed

lemma read_command_low:
  "read s = (Inr (c, st, d), s2) \<Longrightarrow> 0 \<le> c \<and> c \<le> 127"
  by (auto simp: read_eq dest: decode_command_low)

lemma transaction_returns_cases:
  assumes "transaction s command data = (Inr (status, rdata), s2)"
  shows "\<exists>s1. write_py s command data = (Inr (), s1) \<and> read s1 = (Inr (command, status, rdata), s2)"
  using assms
  by (auto simp: transaction_def split: prod.splits sum.splits if_splits)

text \<open>
  C7: when the request has been written and the response decodes, \<open>transaction\<close> raises the
  command mismatch error if the response command differs from the request command, whatever
  the status, and returns the decoded status and data if the two commands are equal.
\<close>

theorem transaction_command_check:
  assumes "write_py s command data = (Inr (), s1)"
    and "read s1 = (Inr (response_command, status, rdata), s2)"
  shows "(response_command \<noteq> command \<longrightarrow>
            transaction s command data = (Inl CommandMismatch, s2)) \<and>
         (response_command = command \<longrightarrow>
            transaction s command data = (Inr (status, rdata), s2))"
  using assms by (simp add: transaction_after_write)

text \<open>
  Request command 1: the response \<open>03 02 00 05\<close> (command 2, status 0) raises, the response
  \<open>03 01 00 05\<close> gives status 0 and the data \<open>05\<close>.
\<close>

theorem transaction_command_check_witness:
  "transaction (reader_on [[3, 2, 0, 5]]) 1 [] =
     (Inl CommandMismatch, (reader_on [])\<lparr>bus := \<lparr>written = [[1, 1]], incoming = []\<rparr>\<rparr>) \<and>
   transaction (reader_on [[3, 1, 0, 5]]) 1 [] =
     (Inr (0, [5]), (reader_on [])\<lparr>bus := \<lparr>written = [[1, 1]], incoming = []\<rparr>\<rparr>)"
  using transaction_command_check [where s = "reader_on [[3, 2, 0, 5]]" and command = 1
      and data = "[]" and ?s1.0 = "(reader_on [[3, 2, 0, 5]])\<lparr>bus := \<lparr>written = [[1, 1]], incoming = [[3, 2, 0, 5]]\<rparr>\<rparr>"
      and response_command = 2 and status = 0 and rdata = "[5]"
      and ?s2.0 = "(reader_on [])\<lparr>bus := \<lparr>written = [[1, 1]], incoming = []\<rparr>\<rparr>"]
    transaction_command_check [where s = "reader_on [[3, 1, 0, 5]]" and command = 1
      and data = "[]" and ?s1.0 = "(reader_on [[3, 1, 0, 5]])\<lparr>bus := \<lparr>written = [[1, 1]], incoming = [[3, 1, 0, 5]]\<rparr>\<rparr>"
      and response_command = 1 and status = 0 and rdata = "[5]"
      and ?s2.0 = "(reader_on [])\<lparr>bus := \<lparr>written = [[1, 1]], incoming = []\<rparr>\<rparr>"]
  by (simp add: write_py_eq read_eq reader_on_def bus_write_def bus_read_def decode_long
      clear_msb_def slice_py_def slice_bound_def ord_py_def)

text \<open>
  C10: a request command of 128 or more that has been written never matches a decoded
  response, whose command is at most 127: \<open>transaction\<close> raises the command mismatch error.
  With such a command \<open>transaction\<close> always raises, so it returns only for commands in 0..127.
\<close>

theorem transaction_high_command:
  "(128 \<le> command \<and> write_py s command data = (Inr (), s1) \<and>
      read s1 = (Inr (response_command, status, rdata), s2)
      \<longrightarrow> transaction s command data = (Inl CommandMismatch, s2)) \<and>
   (128 \<le> command \<longrightarrow> (\<exists>e. fst (transaction s command data) = Inl e)) \<and>
   (fst (transaction s command data) = Inr result \<longrightarrow> 0 \<le> command \<and> command \<le> 127)"
proof -
  have ret: "0 \<le> command \<and> command \<le> 127" if "fst (transaction s command data) = Inr res" for res
  proof -
    obtain st rd where "res = (st, rd)" by (cases res)
    with that have "transaction s command data = (Inr (st, rd), snd (transaction s command data))"
      by (metis prod.collapse)
    then obtain s1' where "read s1' = (Inr (command, st, rd), snd (transaction s command data))"
      using transaction_returns_cases by blast
    then show ?thesis by (rule read_command_low)
  qed
  have mismatch: "transaction s command data = (Inl CommandMismatch, s2)"
    if "128 \<le> command" "write_py s command data = (Inr (), s1)"
      "read s1 = (Inr (response_command, status, rdata), s2)"
  proof -
    have "response_command \<le> 127" using that(3) read_command_low by blast
    with that(1) have "response_command \<noteq> command" by simp
    with that show ?thesis by (simp add: transaction_after_write)
  qed
  have fails: "\<exists>e. fst (transaction s command data) = Inl e" if "128 \<le> command"
  proof (cases "fst (transaction s command data)")
    case (Inl e) then show ?thesis by blast
  next
    case (Inr res)
    then have "command \<le> 127" using ret by blast
    with that show ?thesis by simp
  qed
  show ?thesis using ret mismatch fails by blast
qed

text \<open>
  Request command 128 with the response \<open>03 80 00 05\<close>, which echoes it: the decoded command
  is 0 and the transaction raises. Request command 1 with the response \<open>03 01 00 05\<close> returns.
\<close>

theorem transaction_high_command_witness:
  "transaction (reader_on [[3, 0x80, 0, 5]]) 128 [] =
     (Inl CommandMismatch, (reader_on [])\<lparr>bus := \<lparr>written = [[1, 128]], incoming = []\<rparr>\<rparr>) \<and>
   fst (transaction (reader_on [[3, 1, 0, 5]]) 1 []) = Inr (0, [5]) \<and> (0::int) \<le> 1 \<and> (1::int) \<le> 127"
  using transaction_high_command [where s = "reader_on [[3, 0x80, 0, 5]]" and command = 128
      and data = "[]" and ?s1.0 = "(reader_on [[3, 0x80, 0, 5]])\<lparr>bus := \<lparr>written = [[1, 128]], incoming = [[3, 0x80, 0, 5]]\<rparr>\<rparr>"
      and response_command = 0 and status = 0 and rdata = "[5]"
      and ?s2.0 = "(reader_on [])\<lparr>bus := \<lparr>written = [[1, 128]], incoming = []\<rparr>\<rparr>"]
    transaction_high_command [where s = "reader_on [[3, 1, 0, 5]]" and command = 1
      and data = "[]" and result = "(0, [5])"]
  by (simp add: transaction_def write_py_eq read_eq reader_on_def bus_write_def bus_read_def
      decode_long clear_msb_def slice_py_def slice_bound_def ord_py_def)

subsection \<open>select, poll and the constructor\<close>

lemma select_raises: "select s = (Inl (AttributeError ''COMMAND_SELECT''), s)"
  by (simp add: select_def select_with_def class_attr_def RFIDReader_attrs_def)

lemma loop_select_raises: "loop select s c = Some (AttributeError ''COMMAND_SELECT'', s, c)"
  unfolding loop_def by (subst loop_while.simps) (simp add: select_raises)

lemma poll_cases:
  "poll edge s =
     (if pin_detect s = None then Some (Inl (AttributeError ''read''), s)
      else if edge then Some (Inl (AttributeError ''COMMAND_SELECT''), s)
      else None)"
  by (cases "pin_detect s") (simp_all add: poll_def select_raises)

text \<open>
  C2, as the code has it. The class defines \<open>COMMAND_SLEEP\<close> and \<open>STATUS_SUCCESS\<close> only, so
  every call of \<open>select\<close> raises \<open>AttributeError\<close> for \<open>COMMAND_SELECT\<close> and leaves the
  reader, its bus included, as it was; the bridge loop on a reader ends in its first
  iteration with that exception, nothing published. A call of \<open>poll\<close> on a reader without
  detect pin raises an \<open>AttributeError\<close> at the read of the pin; on a reader with a detect
  pin it raises the \<open>AttributeError\<close> of \<open>select\<close> once an edge has arrived, the reader as it
  was, and blocks forever when no edge arrives. In no case does \<open>poll\<close> return a card or
  \<open>None\<close>.
\<close>

theorem select_never_runs:
  "select s = (Inl (AttributeError ''COMMAND_SELECT''), s) \<and>
   loop select s c = Some (AttributeError ''COMMAND_SELECT'', s, c) \<and>
   (pin_detect s = None \<longrightarrow> poll edge s = Some (Inl (AttributeError ''read''), s)) \<and>
   (pin_detect s \<noteq> None \<and> edge \<longrightarrow>
      poll edge s = Some (Inl (AttributeError ''COMMAND_SELECT''), s)) \<and>
   (pin_detect s \<noteq> None \<and> \<not> edge \<longrightarrow> poll edge s = None) \<and>
   poll edge s \<noteq> Some (Inr result, s1)"
  using select_raises [of s] loop_select_raises [of s c]
  by (simp add: poll_cases)

text \<open>
  A reader whose bus holds a response: \<open>select\<close> raises and the response is still there, and
  so does \<open>poll\<close> after an edge on the detect pin; without detect pin \<open>poll\<close> raises at once.
\<close>

theorem select_never_runs_witness:
  "select (reader_on [[3, 1, 0, 5]]) =
     (Inl (AttributeError ''COMMAND_SELECT''), reader_on [[3, 1, 0, 5]]) \<and>
   loop select (reader_on [[3, 1, 0, 5]]) [] =
     Some (AttributeError ''COMMAND_SELECT'', reader_on [[3, 1, 0, 5]], []) \<and>
   poll True (reader_on [[3, 1, 0, 5]]) =
     Some (Inl (AttributeError ''read''), reader_on [[3, 1, 0, 5]]) \<and>
   poll True (reader_with_detect [[3, 1, 0, 5]]) =
     Some (Inl (AttributeError ''COMMAND_SELECT''), reader_with_detect [[3, 1, 0, 5]]) \<and>
   poll False (reader_with_detect [[3, 1, 0, 5]]) = None"
  using select_never_runs [where s = "reader_on [[3, 1, 0, 5]]" and c = "[]" and edge = True]
    select_never_runs [where s = "reader_with_detect [[3, 1, 0, 5]]" and edge = True]
    select_never_runs [where s = "reader_with_detect [[3, 1, 0, 5]]" and edge = False]
  by (simp add: reader_on_def reader_with_detect_def)

text \<open>
  The claim as stated fails for \<open>poll\<close> on a reader with a detect pin when no edge arrives:
  the call blocks in the wait and raises nothing.
\<close>

theorem poll_blocks_counterexample:
  "pin_detect (reader_with_detect [[3, 1, 0, 5]]) = Some 4 \<and>
   poll False (reader_with_detect [[3, 1, 0, 5]]) = None \<and>
   poll False (reader_with_detect [[3, 1, 0, 5]]) \<noteq>
     Some (Inl (AttributeError ''COMMAND_SELECT''), reader_with_detect [[3, 1, 0, 5]])"
  by (simp add: poll_def reader_with_detect_def reader_on_def)

text \<open>
  The body of \<open>select\<close> in a class namespace that defines \<open>COMMAND_SELECT\<close>: after a
  transaction that returned, the result is \<open>None\<close> for a status other than 0, and otherwise
  the last data byte as type with the bytes before it as UID; empty data raises.
\<close>

lemma nat_len_pred: "nat (int (length data) - 1) = length data - Suc 0"
  by (cases data) simp_all

lemma index_py_last:
  "index_py data (int (length data) - 1) = (if data = [] then Inl IndexError else Inr (last data))"
  by (cases "data = []") (auto simp: index_py_def Let_def last_conv_nth nat_len_pred)

lemma slice_py_butlast: "slice_py data 0 (int (length data) - 1) = butlast data"
  by (cases "data = []")
     (auto simp: slice_py_def slice_bound_def Let_def butlast_conv_take nat_len_pred)

lemma select_with_defined:
  assumes "transaction s 1 [] = (Inr (status, data), s1)"
  shows "select_with select_defined s =
           (if status \<noteq> 0 then (Inr None, s1)
            else if data = [] then (Inl IndexError, s1)
            else (Inr (Some (ord_py (last data), butlast data)), s1))"
  using assms
  by (simp add: select_with_def select_defined_def RFIDReader_attrs_def class_attr_def
      index_py_last slice_py_butlast Let_def)

text \<open>
  C1: with a bus that returns a select response of status 0 and data \<open>01 02 03 04\<close>, bit 7 of
  every byte set, \<open>select\<close> returns the card with UID \<open>01 02 03\<close> and type 4. The code raises
  \<open>AttributeError\<close> instead and does not touch the bus. In a class namespace that defines
  \<open>COMMAND_SELECT\<close>, the same body returns the pair of type 4 and UID \<open>01 02 03\<close>.
\<close>

theorem select_mock_raises:
  "select (reader_on [[0x86, 0x81, 0x80, 0x81, 0x82, 0x83, 0x84]]) =
     (Inl (AttributeError ''COMMAND_SELECT''),
      reader_on [[0x86, 0x81, 0x80, 0x81, 0x82, 0x83, 0x84]]) \<and>
   fst (select_with select_defined (reader_on [[0x86, 0x81, 0x80, 0x81, 0x82, 0x83, 0x84]])) =
     Inr (Some (4, [1, 2, 3]))"
  by (simp add: select_raises select_with_def select_defined_def RFIDReader_attrs_def
      class_attr_def transaction_def write_py_eq read_eq reader_on_def bus_write_def bus_read_def
      decode_long clear_msb_def slice_py_def slice_bound_def ord_py_def index_py_def)

lemma init_never_returns: "\<exists>e. RFIDReader_init env bus_no address detect wake = Inl e"
  by (auto simp: RFIDReader_init_def fcntl_ioctl_def Let_def split: sum.splits)

text \<open>
  C8: construction raises the slave address error exactly when the addressing call fails, and
  goes on when it succeeds. In the code, a successful call returns the integer 0, which is
  not \<open>None\<close>, and construction raises the slave address error; a failing call raises
  \<open>IOError\<close> inside \<open>fcntl.ioctl\<close>, which is the exception of the construction.
\<close>

theorem init_raises_on_ioctl_success:
  "RFIDReader_init (test_env 0) 1 0x50 (Some 4) None = Inl (SlaveAddressError (PyInt 0)) \<and>
   RFIDReader_init (test_env (- 1)) 1 0x50 (Some 4) None = Inl (IOError 121)"
  by (simp add: RFIDReader_init_def fcntl_ioctl_def test_env_def)

section \<open>Properties of the bridge loop\<close>

lemma loop_body_eq:
  "loop_body present r c = (if r = present then (present, c) else (r, c @ [event_of r]))"
  by (cases r; cases present)
     (auto simp: loop_body_def publish_def event_of_def card_presented_def card_removed_def)

lemma triggers_Cons:
  "triggers present (r # rs) = (if r = present then [] else [r]) @ triggers r rs"
  by (simp add: loop_body_eq)

lemma loop_while_scripted:
  "loop_while scripted_select rs c present =
     Some (StopIteration, [], c @ map event_of (triggers present rs))"
proof (induction rs arbitrary: c present)
  case Nil
  show ?case by (subst loop_while.simps) simp
next
  case (Cons r rs)
  show ?case
    by (subst loop_while.simps)
       (simp add: Cons.IH loop_body_eq triggers_Cons del: triggers.simps(2))
qed

lemma triggers_hd: "triggers present rs \<noteq> [] \<Longrightarrow> hd (triggers present rs) \<noteq> present"
  by (induction rs arbitrary: present) (auto simp: triggers_Cons simp del: triggers.simps(2))

lemma triggers_distinct_adj: "distinct_adj (triggers present rs)"
proof (induction rs arbitrary: present)
  case Nil
  show ?case by simp
next
  case (Cons r rs)
  show ?case
  proof (cases "triggers r rs")
    case Nil
    then show ?thesis by (simp add: triggers_Cons del: triggers.simps(2))
  next
    case (Cons t ts)
    then have "t \<noteq> r" using triggers_hd [of r rs] by simp
    moreover have "distinct_adj (t # ts)" using Cons.IH [of r] Cons by simp
    ultimately show ?thesis using Cons by (simp add: triggers_Cons del: triggers.simps(2))
  qed
qed

lemma distinct_adj_nth:
  "distinct_adj xs \<Longrightarrow> Suc i < length xs \<Longrightarrow> xs ! i \<noteq> xs ! Suc i"
proof (induction xs arbitrary: i)
  case Nil
  then show ?case by simp
next
  case (Cons x xs)
  then show ?case
    by (cases xs; cases i) (auto simp: distinct_adj_Cons)
qed

lemma triggers_no_repeat:
  "Suc i < length (triggers present rs) \<Longrightarrow> triggers present rs ! i \<noteq> triggers present rs ! Suc i"
  using triggers_distinct_adj distinct_adj_nth by blast

lemma triggers_removal_after_presented:
  assumes "i < length (triggers None rs)" "triggers None rs ! i = None"
  shows "0 < i \<and> triggers None rs ! (i - 1) \<noteq> None"
proof (cases i)
  case 0
  with assms have "triggers None rs \<noteq> []" "hd (triggers None rs) = None"
    by (auto simp: hd_conv_nth)
  with triggers_hd [of None rs] show ?thesis by simp
next
  case (Suc j)
  with assms triggers_no_repeat [of j None rs] show ?thesis by simp
qed

text \<open>
  C6: one iteration publishes \<open>card_presented\<close> exactly when \<open>select\<close> returned a card other
  than \<open>present\<close>, publishes \<open>card_removed\<close> exactly when it returned \<open>None\<close> while a card was
  present, and publishes nothing otherwise. Started with no card present and fed the
  results \<open>None, A, A, None, B, None\<close>, the loop publishes presented A, removed, presented B,
  removed. For any finite sequence of results, the published calls are the events of the
  results that triggered them; no two consecutive ones were triggered by the same result,
  so a card is not presented twice in a row, and every removal comes directly after the
  presentation of a card.
\<close>

theorem loop_transitions:
  "(Some info \<noteq> present \<longrightarrow>
      loop_body present (Some info) c = (Some info, c @ [card_presented info])) \<and>
   loop_body (Some info) (Some info) c = (Some info, c) \<and>
   loop_body (Some info) None c = (None, c @ [card_removed]) \<and>
   loop_body None None c = (None, c) \<and>
   loop scripted_select [None, Some A, Some A, None, Some B, None] [] =
     Some (StopIteration, [], [card_presented A, card_removed, card_presented B, card_removed]) \<and>
   loop scripted_select rs [] = Some (StopIteration, [], map event_of (triggers None rs)) \<and>
   (\<forall>i. Suc i < length (triggers None rs) \<longrightarrow>
      triggers None rs ! i \<noteq> triggers None rs ! Suc i) \<and>
   (\<forall>i < length (triggers None rs). triggers None rs ! i = None \<longrightarrow>
      0 < i \<and> triggers None rs ! (i - 1) \<noteq> None)"
proof (intro conjI)
  show "Some info \<noteq> present \<longrightarrow>
      loop_body present (Some info) c = (Some info, c @ [card_presented info])"
    by (auto simp: loop_body_eq event_of_def)
  show "loop_body (Some info) (Some info) c = (Some info, c)"
    by (simp add: loop_body_eq)
  show "loop_body (Some info) None c = (None, c @ [card_removed])"
    by (simp add: loop_body_eq event_of_def)
  show "loop_body None None c = (None, c)"
    by (simp add: loop_body_eq)
  show "loop scripted_select [None, Some A, Some A, None, Some B, None] [] =
     Some (StopIteration, [], [card_presented A, card_removed, card_presented B, card_removed])"
    by (simp add: loop_def loop_while_scripted triggers_Cons event_of_def del: triggers.simps(2))
  show "loop scripted_select rs [] = Some (StopIteration, [], map event_of (triggers None rs))"
    by (simp add: loop_def loop_while_scripted)
  show "\<forall>i. Suc i < length (triggers None rs) \<longrightarrow>
      triggers None rs ! i \<noteq> triggers None rs ! Suc i"
    using triggers_no_repeat by blast
  show "\<forall>i < length (triggers None rs). triggers None rs ! i = None \<longrightarrow>
      0 < i \<and> triggers None rs ! (i - 1) \<noteq> None"
    using triggers_removal_after_presented by blast
qed

text \<open>
  The script of the claim with A the card of type 4 and UID \<open>01 02 03\<close> and B the card of
  type 8 and UID \<open>07 07\<close>.
\<close>

theorem loop_transitions_witness:
  "loop_body None (Some (4, [1, 2, 3])) [] = (Some (4, [1, 2, 3]), [card_presented (4, [1, 2, 3])]) \<and>
   loop scripted_select
     [None, Some (4, [1, 2, 3]), Some (4, [1, 2, 3]), None, Some (8, [7, 7]), None] [] =
     Some (StopIteration, [],
       [card_presented (4, [1, 2, 3]), card_removed, card_presented (8, [7, 7]), card_removed]) \<and>
   triggers None [None, Some (4, [1, 2, 3]), Some (4, [1, 2, 3]), None, Some (8, [7, 7]), None] =
     [Some (4, [1, 2, 3]), None, Some (8, [7, 7]), None]"
  using loop_transitions [of "(4, [1, 2, 3])" None "[]" "(4, [1, 2, 3])" "(8, [7, 7])"
      "[None, Some (4, [1, 2, 3]), Some (4, [1, 2, 3]), None, Some (8, [7, 7]), None]"]
  by (simp add: triggers_Cons del: triggers.simps(2))

end
